theory Spec2Isabelle
  imports Main
begin

section \<open>Bank-System: customers and bank accounts (src/main.py)\<close>

subsection \<open>Python values used by the program\<close>

text \<open>
  Every error of the program is a Python \<open>ValueError\<close> carrying its message.
  Amounts are Python integers, hence unbounded: \<open>int\<close>.
\<close>

datatype error = ValueError string

text \<open>
  The f-strings of the program format integers with Python's \<open>str\<close>: decimal digits,
  most significant first, with a leading minus sign for a negative number.
  \<open>str_nat\<close> gives the digits of the magnitude, \<open>decimal\<close> the text with its sign.
\<close>

definition digit_char :: "nat \<Rightarrow> char" where
  "digit_char d = ''0123456789'' ! d"

function str_nat :: "nat \<Rightarrow> string" where
  "str_nat n = (if n < 10 then [digit_char n] else str_nat (n div 10) @ [digit_char (n mod 10)])"
  by pat_completeness auto
termination
  by (relation "measure (\<lambda>n. n)") auto

declare str_nat.simps [simp del]

definition decimal :: "int \<Rightarrow> string" where
  "decimal i = (if i < 0 then CHR ''-'' # str_nat (nat (- i)) else str_nat (nat i))"

text \<open>
  CPython limits the conversion of an integer to decimal text: when the magnitude has
  more digits than \<open>sys.get_int_max_str_digits()\<close> (4300 unless the interpreter is
  configured otherwise; the program does not configure it) the conversion raises
  \<open>ValueError\<close>. The sign is not counted.
\<close>

definition int_max_str_digits :: nat where
  "int_max_str_digits = 4300"

definition str_digits_error :: error where
  "str_digits_error = ValueError
     ''Exceeds the limit (4300 digits) for integer string conversion; use sys.set_int_max_str_digits() to increase the limit''"

definition str_int :: "int \<Rightarrow> error + string" where
  "str_int i =
     (if int_max_str_digits < length (str_nat (nat \<bar>i\<bar>)) then Inl str_digits_error
      else Inr (decimal i))"

subsection \<open>Objects and the class-level counters\<close>

text \<open>
  A \<open>Customer\<close> object has the private fields \<open>__name\<close>, \<open>__email\<close> and
  \<open>__customer_id\<close>. A \<open>BankAccount\<close> object has \<open>owner\<close> (a reference to a
  customer object, shared with whoever else holds it), \<open>__balance\<close>,
  \<open>__account_number\<close> and \<open>__account_initiation\<close>.
\<close>

type_synonym ref = nat

record customer =
  name :: string
  email :: string
  customer_id :: int

record bank_account =
  owner :: ref
  balance :: int
  account_number :: int
  account_initiation :: bool

text \<open>
  The process state: the class attributes \<open>Customer.__customer_counter\<close> and
  \<open>BankAccount.__account_counter\<close>, and the store of customer objects. A reference to
  a customer is its position in the store; objects are never deleted.
\<close>

record world =
  customer_counter :: int
  account_counter :: int
  customers :: "customer list"

text \<open>The state after the two class bodies have run: both counters are 0.\<close>

definition world0 :: world where
  "world0 = \<lparr>customer_counter = 0, account_counter = 0, customers = []\<rparr>"

definition deref :: "world \<Rightarrow> ref \<Rightarrow> customer option" where
  "deref w r = (if r < length (customers w) then Some (customers w ! r) else None)"

subsection \<open>Class Customer\<close>

text \<open>\<open>Customer.__init__\<close>: bumps the class counter, then fills in the new object.\<close>

definition Customer_init :: "world \<Rightarrow> string \<Rightarrow> string \<Rightarrow> ref \<times> world" where
  "Customer_init w nm em =
     (let w1 = w\<lparr>customer_counter := customer_counter w + 1\<rparr>;
          self = \<lparr>name = nm, email = em, customer_id = customer_counter w1\<rparr>
      in (length (customers w1), w1\<lparr>customers := customers w1 @ [self]\<rparr>))"

text \<open>
  \<open>get_info\<close> builds its text with an f-string; the only part that can raise is the
  conversion of the customer id.
\<close>

definition get_info :: "customer \<Rightarrow> error + string" where
  "get_info self =
     (case str_int (customer_id self) of
        Inl e \<Rightarrow> Inl e
      | Inr sid \<Rightarrow>
          Inr (''Customer: '' @ name self @ '' '' @ [CHR 0x0A] @ ''Email: '' @ email self
                 @ '' '' @ [CHR 0x0A] @ ''Customer ID: '' @ sid))"

definition email_getter :: "customer \<Rightarrow> string" where
  "email_getter self = email self"

text \<open>The \<open>email\<close> setter, on the object itself and through a reference into the store.\<close>

definition email_setter :: "customer \<Rightarrow> string \<Rightarrow> customer" where
  "email_setter self new_email = self\<lparr>email := new_email\<rparr>"

definition set_email :: "world \<Rightarrow> ref \<Rightarrow> string \<Rightarrow> world" where
  "set_email w r new_email =
     (case deref w r of
        None \<Rightarrow> w
      | Some c \<Rightarrow> w\<lparr>customers := (customers w)[r := email_setter c new_email]\<rparr>)"

subsection \<open>Class BankAccount\<close>

definition BankAccount_init :: "world \<Rightarrow> ref \<Rightarrow> bank_account \<times> world" where
  "BankAccount_init w own =
     (let w1 = w\<lparr>account_counter := account_counter w + 1\<rparr>
      in (\<lparr>owner = own, balance = 0, account_number = account_counter w1,
           account_initiation = True\<rparr>, w1))"

text \<open>
  A method returns what Python returns or raises, paired with the object after the call.
  The explicit \<open>raise\<close> statements come before any assignment. The f-string of the
  \<open>return\<close> statement of \<open>top_up\<close> and \<open>withdraw\<close> is evaluated after the assignments,
  left to right, and raises when a conversion exceeds the digit limit: the object paired
  with that error is the updated one.
\<close>

definition top_up :: "bank_account \<Rightarrow> int \<Rightarrow> (error + string) \<times> bank_account" where
  "top_up self v =
     (if v \<le> 0 then (Inl (ValueError ''Top ups should be positive amount.''), self)
      else
        (let self1 = self\<lparr>balance := balance self + v\<rparr>;
             self2 = self1\<lparr>account_initiation := False\<rparr>
         in (case str_int v of
               Inl e \<Rightarrow> (Inl e, self2)
             | Inr sv \<Rightarrow>
                 (case str_int (balance self2) of
                    Inl e \<Rightarrow> (Inl e, self2)
                  | Inr sb \<Rightarrow>
                      (Inr (''You have topped up '' @ sv @ '' USD. Current balance: ''
                              @ sb @ '' USD''), self2)))))"

definition withdraw :: "bank_account \<Rightarrow> int \<Rightarrow> (error + string) \<times> bank_account" where
  "withdraw self v =
     (if balance self < v then (Inl (ValueError ''Insufficient balance.''), self)
      else
        (let self1 = self\<lparr>balance := balance self - v\<rparr>
         in (case str_int v of
               Inl e \<Rightarrow> (Inl e, self1)
             | Inr sv \<Rightarrow>
                 (case str_int (balance self1) of
                    Inl e \<Rightarrow> (Inl e, self1)
                  | Inr sb \<Rightarrow>
                      (Inr (''You have withdrawn '' @ sv @ '' USD. Remaining balance: ''
                              @ sb @ '' USD''), self1)))))"

definition get_account_number :: "bank_account \<Rightarrow> error + string" where
  "get_account_number self =
     (case str_int (account_number self) of
        Inl e \<Rightarrow> Inl e
      | Inr sn \<Rightarrow> Inr (''Account number: '' @ sn))"

text \<open>
  \<open>get_account_owner_info\<close> follows the \<open>owner\<close> reference into the store at the time of
  the call and passes on what \<open>get_info\<close> returns or raises. \<open>None\<close> stands for a
  reference that points to no object, which Python cannot produce.
\<close>

definition get_account_owner_info :: "world \<Rightarrow> bank_account \<Rightarrow> (error + string) option" where
  "get_account_owner_info w self = map_option get_info (deref w (owner self))"

definition balance_getter :: "bank_account \<Rightarrow> int" where
  "balance_getter self = balance self"

definition balance_setter :: "bank_account \<Rightarrow> int \<Rightarrow> (error + unit) \<times> bank_account" where
  "balance_setter self v =
     (if v \<le> 0 then (Inl (ValueError ''Balance should be above 0.''), self)
      else if account_initiation self then
        (let self1 = self\<lparr>balance := v\<rparr>;
             self2 = self1\<lparr>account_initiation := False\<rparr>
         in (Inr (), self2))
      else (Inr (), self))"

subsection \<open>Sequences of calls\<close>

text \<open>
  A caller's sequence of balance operations on one account: each call acts on the object
  the previous call left, whether that call returned or raised. A caller that stops at
  the first error leaves the object in the state after the failing call, which is the
  state after a prefix of the sequence.
\<close>

datatype operation = TopUp int | Withdraw int | SetBalance int

fun apply_operation :: "bank_account \<Rightarrow> operation \<Rightarrow> bank_account" where
  "apply_operation a (TopUp v) = snd (top_up a v)"
| "apply_operation a (Withdraw v) = snd (withdraw a v)"
| "apply_operation a (SetBalance v) = snd (balance_setter a v)"

definition run_operations :: "bank_account \<Rightarrow> operation list \<Rightarrow> bank_account" where
  "run_operations a ops = foldl apply_operation a ops"

text \<open>
  A sequence of constructions (and email changes) in one process, with the customer ids
  and the account numbers read from the objects created, in creation order.
\<close>

datatype event = NewCustomer string string | NewAccount ref | SetEmail ref string

fun run_events :: "world \<Rightarrow> event list \<Rightarrow> int list \<times> int list" where
  "run_events w [] = ([], [])"
| "run_events w (NewCustomer nm em # es) =
     (let (r, w1) = Customer_init w nm em;
          (cs, as) = run_events w1 es
      in case deref w1 r of
           Some c \<Rightarrow> (customer_id c # cs, as)
         | None \<Rightarrow> (cs, as))"
| "run_events w (NewAccount own # es) =
     (let (a, w1) = BankAccount_init w own;
          (cs, as) = run_events w1 es
      in (cs, account_number a # as))"
| "run_events w (SetEmail r em # es) = run_events (set_email w r em) es"

text \<open>How many customers and how many accounts a sequence of events creates.\<close>

fun customers_created :: "event list \<Rightarrow> nat" where
  "customers_created [] = 0"
| "customers_created (NewCustomer nm em # es) = Suc (customers_created es)"
| "customers_created (NewAccount own # es) = customers_created es"
| "customers_created (SetEmail r em # es) = customers_created es"

fun accounts_created :: "event list \<Rightarrow> nat" where
  "accounts_created [] = 0"
| "accounts_created (NewCustomer nm em # es) = accounts_created es"
| "accounts_created (NewAccount own # es) = Suc (accounts_created es)"
| "accounts_created (SetEmail r em # es) = accounts_created es"

section \<open>Properties\<close>

subsection \<open>The digit limit of integer conversion\<close>

lemma str_nat_nonempty: "0 < length (str_nat n)"
  by (subst str_nat.simps) simp

lemma str_nat_long: "10 ^ k \<le> n \<Longrightarrow> k < length (str_nat n)"
proof (induction k arbitrary: n)
  case 0
  show ?case by (rule str_nat_nonempty)
next
  case (Suc k)
  from Suc.prems have p: "10 * 10 ^ k \<le> n" by simp
  have q: "(10::nat) \<le> 10 * 10 ^ k" by simp
  from p q have big: "10 \<le> n" by linarith
  from Suc.prems have "10 ^ k \<le> n div 10" by simp
  then have "k < length (str_nat (n div 10))" by (rule Suc.IH)
  with big show ?case by (subst str_nat.simps) simp
qed

lemma str_nat_short: "0 < k \<Longrightarrow> n < 10 ^ k \<Longrightarrow> length (str_nat n) \<le> k"
proof (induction k arbitrary: n)
  case 0
  then show ?case by simp
next
  case (Suc k)
  show ?case
  proof (cases "n < 10")
    case True
    then show ?thesis by (subst str_nat.simps) simp
  next
    case False
    with Suc.prems have "0 < k" by (cases k) simp_all
    moreover from Suc.prems have "n div 10 < 10 ^ k" by simp
    ultimately have "length (str_nat (n div 10)) \<le> k" by (rule Suc.IH)
    with False show ?thesis by (subst str_nat.simps) simp
  qed
qed

lemma str_int_fits:
  assumes "\<bar>i\<bar> < 10 ^ int_max_str_digits"
  shows "str_int i = Inr (decimal i)"
proof -
  have "int (nat \<bar>i\<bar>) < int (10 ^ int_max_str_digits)"
    using assms by simp
  then have "nat \<bar>i\<bar> < 10 ^ int_max_str_digits"
    by (simp only: of_nat_less_iff)
  moreover have "0 < int_max_str_digits"
    by (simp add: int_max_str_digits_def)
  ultimately have "length (str_nat (nat \<bar>i\<bar>)) \<le> int_max_str_digits"
    by (intro str_nat_short)
  then show ?thesis by (simp add: str_int_def)
qed

lemma str_int_exceeds:
  assumes "10 ^ int_max_str_digits \<le> \<bar>i\<bar>"
  shows "str_int i = Inl str_digits_error"
proof -
  have "int (10 ^ int_max_str_digits) \<le> int (nat \<bar>i\<bar>)"
    using assms by simp
  then have "10 ^ int_max_str_digits \<le> nat \<bar>i\<bar>"
    by (simp only: of_nat_le_iff)
  then have "int_max_str_digits < length (str_nat (nat \<bar>i\<bar>))"
    by (rule str_nat_long)
  then show ?thesis by (simp add: str_int_def)
qed

lemma small_fits: "\<bar>i::int\<bar> < 10000 \<Longrightarrow> \<bar>i\<bar> < 10 ^ int_max_str_digits"
proof -
  assume small: "\<bar>i\<bar> < 10000"
  have "(10::int) ^ 4 \<le> 10 ^ int_max_str_digits"
    by (rule power_increasing) (simp_all add: int_max_str_digits_def)
  moreover have "(10::int) ^ 4 = 10000" by simp
  ultimately show ?thesis using small by simp
qed

lemma limit_power_pos:
  "(0::int) < 10 ^ int_max_str_digits" "\<bar>(10::int) ^ int_max_str_digits\<bar> = 10 ^ int_max_str_digits"
  by simp_all

lemma limit_power_not_le0: "\<not> (10::int) ^ int_max_str_digits \<le> 0"
proof -
  have "(0::int) < 10 ^ int_max_str_digits" by simp
  then show ?thesis by (simp only: not_le)
qed

lemma limit_power_neg: "(0::int) \<le> n \<Longrightarrow> \<not> n < - (10 ^ int_max_str_digits)"
proof -
  assume "0 \<le> n"
  moreover have "(0::int) \<le> 10 ^ int_max_str_digits" by simp
  ultimately show ?thesis by linarith
qed

lemma str_int_values:
  "str_int 0 = Inr ''0''" "str_int 1 = Inr ''1''" "str_int 5 = Inr ''5''"
  "str_int 50 = Inr ''50''" "str_int 100 = Inr ''100''"
  "str_int (- 5) = Inr ''-5''" "str_int 55 = Inr ''55''"
  by (simp_all add: str_int_def decimal_def str_nat.simps digit_char_def int_max_str_digits_def)

lemma decimal_values:
  "decimal 0 = ''0''" "decimal 1 = ''1''" "decimal 5 = ''5''"
  "decimal 50 = ''50''" "decimal 100 = ''100''"
  "decimal (- 5) = ''-5''" "decimal 55 = ''55''"
  by (simp_all add: decimal_def str_nat.simps digit_char_def)

lemma str_digits_error_distinct:
  "str_digits_error \<noteq> ValueError ''Top ups should be positive amount.''"
  "str_digits_error \<noteq> ValueError ''Insufficient balance.''"
  "str_digits_error \<noteq> ValueError ''Balance should be above 0.''"
  by (simp_all add: str_digits_error_def)

lemma str_int_eq:
  "str_int i = (if \<bar>i\<bar> < 10 ^ int_max_str_digits then Inr (decimal i) else Inl str_digits_error)"
  by (simp add: str_int_fits str_int_exceeds)

subsection \<open>Facts shared by the properties below\<close>

lemma top_up_state:
  "snd (top_up a v) =
     (if v \<le> 0 then a else a\<lparr>balance := balance a + v, account_initiation := False\<rparr>)"
  by (simp add: top_up_def Let_def split: sum.splits)

lemma withdraw_state:
  "snd (withdraw a v) = (if balance a < v then a else a\<lparr>balance := balance a - v\<rparr>)"
  by (simp add: withdraw_def Let_def split: sum.splits)

lemma balance_setter_state:
  "snd (balance_setter a v) =
     (if 0 < v \<and> account_initiation a then a\<lparr>balance := v, account_initiation := False\<rparr>
      else a)"
  by (simp add: balance_setter_def Let_def)

lemma apply_operation_balance_nonneg:
  "0 \<le> balance a \<Longrightarrow> 0 \<le> balance (apply_operation a x)"
  by (cases x) (simp_all add: top_up_state withdraw_state balance_setter_state)

lemma run_operations_balance_nonneg:
  "0 \<le> balance a \<Longrightarrow> 0 \<le> balance (run_operations a xs)"
  unfolding run_operations_def
  by (induction xs arbitrary: a) (simp_all add: apply_operation_balance_nonneg)

lemma apply_operation_locked:
  "\<not> account_initiation a \<Longrightarrow> \<not> account_initiation (apply_operation a x)"
  by (cases x) (simp_all add: top_up_state withdraw_state balance_setter_state)

lemma run_operations_locked:
  "\<not> account_initiation a \<Longrightarrow> \<not> account_initiation (run_operations a xs)"
  unfolding run_operations_def
  by (induction xs arbitrary: a) (simp_all add: apply_operation_locked)

lemma BankAccount_init_fresh:
  "fst (BankAccount_init w own) =
     \<lparr>owner = own, balance = 0, account_number = account_counter w + 1,
      account_initiation = True\<rparr>"
  by (simp add: BankAccount_init_def Let_def)

lemma fresh_account_world0:
  "fst (BankAccount_init world0 0) =
     \<lparr>owner = 0, balance = 0, account_number = 1, account_initiation = True\<rparr>"
  by (simp add: BankAccount_init_fresh world0_def)

subsection \<open>The balance setter\<close>

text \<open>
  C1, as stated, at a concrete input: on a new account the assignment of 222 succeeds, and
  a later assignment of 0 is not silent. It raises \<open>ValueError\<close>, because the setter
  tests \<open>value <= 0\<close> before it looks at the initiation flag.
\<close>

theorem balance_setter_later_nonpositive_raises:
  "fst (balance_setter (fst (BankAccount_init world0 0)) 222) = Inr () \<and>
   fst (balance_setter (snd (balance_setter (fst (BankAccount_init world0 0)) 222)) 0)
     = Inl (ValueError ''Balance should be above 0.'')"
  by (simp add: fresh_account_world0 balance_setter_def Let_def)

text \<open>
  C1, amended: after the first successful direct assignment on an account (value
  \<open>v > 0\<close> while the flag is true), and after any further operations, a setter call
  with a positive value is a silent no-op (no error, object unchanged), and a setter
  call with a value \<open>\<le> 0\<close> raises \<open>ValueError\<close> and leaves the object unchanged as well.
\<close>

theorem balance_setter_once:
  assumes "account_initiation a" and "0 < v"
    and "s = run_operations (snd (balance_setter a v)) xs"
  shows "(0 < v' \<longrightarrow> balance_setter s v' = (Inr (), s)) \<and>
         (v' \<le> 0 \<longrightarrow> balance_setter s v' = (Inl (ValueError ''Balance should be above 0.''), s))"
proof -
  have "\<not> account_initiation (snd (balance_setter a v))"
    using assms(1,2) by (simp add: balance_setter_def Let_def)
  then have "\<not> account_initiation s"
    unfolding assms(3) by (rule run_operations_locked)
  then show ?thesis
    by (simp add: balance_setter_def)
qed

theorem balance_setter_once_witness:
  "account_initiation (fst (BankAccount_init world0 0)) \<and> (0::int) < 222 \<and>
   balance_setter (snd (balance_setter (fst (BankAccount_init world0 0)) 222)) 2202
     = (Inr (), \<lparr>owner = 0, balance = 222, account_number = 1, account_initiation = False\<rparr>) \<and>
   balance_setter (snd (balance_setter (fst (BankAccount_init world0 0)) 222)) 0
     = (Inl (ValueError ''Balance should be above 0.''),
        \<lparr>owner = 0, balance = 222, account_number = 1, account_initiation = False\<rparr>)"
proof -
  let ?a = "fst (BankAccount_init world0 0)"
  have init: "account_initiation ?a" by (simp add: fresh_account_world0)
  have pos: "(0::int) < 222" by simp
  have s: "snd (balance_setter ?a 222) = run_operations (snd (balance_setter ?a 222)) []"
    by (simp add: run_operations_def)
  have first: "snd (balance_setter ?a 222)
      = \<lparr>owner = 0, balance = 222, account_number = 1, account_initiation = False\<rparr>"
    by (simp add: fresh_account_world0 balance_setter_def Let_def)
  show ?thesis
    using init pos
      balance_setter_once [OF init pos s, of 2202]
      balance_setter_once [OF init pos s, of 0]
    by (simp add: first)
qed

text \<open>
  C5: for every account, the setter called with \<open>v \<le> 0\<close> raises \<open>ValueError\<close> (message
  "Balance should be above 0."); called with \<open>v > 0\<close> while the initiation flag is true
  it sets the balance to \<open>v\<close> and the flag to false.
\<close>

theorem balance_setter_spec:
  "(v \<le> 0 \<longrightarrow> fst (balance_setter a v) = Inl (ValueError ''Balance should be above 0.'')) \<and>
   (0 < v \<and> account_initiation a \<longrightarrow>
      balance_setter a v = (Inr (), a\<lparr>balance := v, account_initiation := False\<rparr>))"
  by (simp add: balance_setter_def Let_def)

theorem balance_setter_spec_witness:
  "(0::int) < 222 \<and> (- 3::int) \<le> 0 \<and> account_initiation (fst (BankAccount_init world0 0)) \<and>
   fst (balance_setter (fst (BankAccount_init world0 0)) (- 3))
     = Inl (ValueError ''Balance should be above 0.'') \<and>
   balance_setter (fst (BankAccount_init world0 0)) 222
     = (Inr (), \<lparr>owner = 0, balance = 222, account_number = 1, account_initiation = False\<rparr>)"
  using balance_setter_spec [of "- 3" "fst (BankAccount_init world0 0)"]
        balance_setter_spec [of 222 "fst (BankAccount_init world0 0)"]
  by (simp add: fresh_account_world0)

subsection \<open>The initiation flag\<close>

text \<open>
  C2, as stated, at a concrete input: on a new account \<open>withdraw(0)\<close> and
  \<open>withdraw(-5)\<close> both succeed (the second one changes the balance to 5), and the
  initiation flag is still true afterwards.
\<close>

theorem withdraw_keeps_initiation_flag:
  "fst (withdraw (fst (BankAccount_init world0 0)) 0)
     = Inr ''You have withdrawn 0 USD. Remaining balance: 0 USD'' \<and>
   account_initiation (snd (withdraw (fst (BankAccount_init world0 0)) 0)) \<and>
   fst (withdraw (fst (BankAccount_init world0 0)) (- 5))
     = Inr ''You have withdrawn -5 USD. Remaining balance: 5 USD'' \<and>
   balance (snd (withdraw (fst (BankAccount_init world0 0)) (- 5))) = 5 \<and>
   account_initiation (snd (withdraw (fst (BankAccount_init world0 0)) (- 5)))"
  by (simp add: fresh_account_world0 withdraw_def Let_def str_int_values)

text \<open>
  C2, amended: after any successful top-up and after any successful direct balance
  assignment the initiation flag is false; \<open>withdraw\<close> leaves the flag as it found it;
  and once the flag is false it stays false under every sequence of operations.
\<close>

theorem initiation_flag_cleared:
  "(fst (top_up a v) = Inr m \<longrightarrow> \<not> account_initiation (snd (top_up a v))) \<and>
   (fst (balance_setter a v) = Inr u \<longrightarrow> \<not> account_initiation (snd (balance_setter a v))) \<and>
   account_initiation (snd (withdraw a v)) = account_initiation a \<and>
   (\<not> account_initiation a \<longrightarrow> \<not> account_initiation (run_operations a xs))"
proof -
  have "fst (top_up a v) = Inr m \<longrightarrow> \<not> account_initiation (snd (top_up a v))"
    by (cases "v \<le> 0") (simp_all add: top_up_state, simp add: top_up_def)
  moreover have "fst (balance_setter a v) = Inr u \<longrightarrow> \<not> account_initiation (snd (balance_setter a v))"
    by (simp add: balance_setter_def Let_def)
  moreover have "account_initiation (snd (withdraw a v)) = account_initiation a"
    by (simp add: withdraw_state)
  ultimately show ?thesis
    using run_operations_locked [of a xs] by simp
qed

theorem initiation_flag_cleared_witness:
  "fst (top_up (fst (BankAccount_init world0 0)) 100)
     = Inr ''You have topped up 100 USD. Current balance: 100 USD'' \<and>
   \<not> account_initiation (snd (top_up (fst (BankAccount_init world0 0)) 100)) \<and>
   fst (balance_setter (fst (BankAccount_init world0 0)) 222) = Inr () \<and>
   \<not> account_initiation (snd (balance_setter (fst (BankAccount_init world0 0)) 222)) \<and>
   \<not> account_initiation
       (run_operations (snd (top_up (fst (BankAccount_init world0 0)) 100))
          [Withdraw 50, SetBalance 7, Withdraw (- 5)])"
proof -
  let ?a = "fst (BankAccount_init world0 0)"
  have t: "fst (top_up ?a 100) = Inr ''You have topped up 100 USD. Current balance: 100 USD''"
    by (simp add: fresh_account_world0 top_up_def Let_def str_int_values)
  have b: "fst (balance_setter ?a 222) = Inr ()"
    by (simp add: fresh_account_world0 balance_setter_def Let_def)
  have t': "\<not> account_initiation (snd (top_up ?a 100))"
    using initiation_flag_cleared [of ?a 100] t by simp
  have b': "\<not> account_initiation (snd (balance_setter ?a 222))"
    using initiation_flag_cleared [of ?a 222 _ "()"] b by simp
  show ?thesis
    using t b t' b'
      initiation_flag_cleared [of "snd (top_up ?a 100)" 0 _ _
        "[Withdraw 50, SetBalance 7, Withdraw (- 5)]"]
    by simp
qed

subsection \<open>Withdrawals\<close>

text \<open>
  C3, as stated, at a concrete input: on a new account (balance 0) the amount
  \<open>- (10 ^ 4300)\<close> does not exceed the balance, yet \<open>withdraw\<close> does not succeed. The
  balance is changed to \<open>10 ^ 4300\<close> and then the f-string of the \<open>return\<close> statement
  raises \<open>ValueError\<close>, because the amount has 4301 digits.
\<close>

theorem withdraw_huge_amount_raises:
  "- (10 ^ 4300) \<le> balance (fst (BankAccount_init world0 0)) \<and>
   withdraw (fst (BankAccount_init world0 0)) (- (10 ^ 4300))
     = (Inl str_digits_error,
        \<lparr>owner = 0, balance = 10 ^ 4300, account_number = 1, account_initiation = True\<rparr>)"
  unfolding int_max_str_digits_def [symmetric]
  by (simp add: fresh_account_world0 withdraw_def Let_def str_int_eq)

text \<open>
  C3, amended: for every account, \<open>withdraw(v)\<close> raises the insufficient-funds error
  (\<open>ValueError\<close>, "Insufficient balance.") if and only if \<open>v\<close> exceeds the balance, and
  then leaves the account unchanged. For every \<open>v\<close> not above the balance, zero and
  negative values included, it decreases the balance by exactly \<open>v\<close> and changes nothing
  else; when \<open>v\<close> and the remaining balance both have at most 4300 decimal digits it
  returns the message with the withdrawn amount and the remaining balance; when one of
  them has more, the conversion raises \<open>ValueError\<close> after the balance was decreased.
\<close>

theorem withdraw_spec:
  "(fst (withdraw a v) = Inl (ValueError ''Insufficient balance.'') \<longleftrightarrow> balance a < v) \<and>
   (balance a < v \<longrightarrow> withdraw a v = (Inl (ValueError ''Insufficient balance.''), a)) \<and>
   (v \<le> balance a \<longrightarrow> snd (withdraw a v) = a\<lparr>balance := balance a - v\<rparr>) \<and>
   (v \<le> balance a \<and> \<bar>v\<bar> < 10 ^ int_max_str_digits
      \<and> \<bar>balance a - v\<bar> < 10 ^ int_max_str_digits \<longrightarrow>
      fst (withdraw a v) =
        Inr (''You have withdrawn '' @ decimal v @ '' USD. Remaining balance: ''
               @ decimal (balance a - v) @ '' USD'')) \<and>
   (v \<le> balance a \<and> (10 ^ int_max_str_digits \<le> \<bar>v\<bar>
      \<or> 10 ^ int_max_str_digits \<le> \<bar>balance a - v\<bar>) \<longrightarrow>
      fst (withdraw a v) = Inl str_digits_error)"
proof -
  have "fst (withdraw a v) = Inl (ValueError ''Insufficient balance.'') \<longleftrightarrow> balance a < v"
    by (simp add: withdraw_def Let_def str_int_eq str_digits_error_distinct)
  moreover have "balance a < v \<longrightarrow> withdraw a v = (Inl (ValueError ''Insufficient balance.''), a)"
    by (simp add: withdraw_def)
  moreover have "v \<le> balance a \<longrightarrow> snd (withdraw a v) = a\<lparr>balance := balance a - v\<rparr>"
    by (simp add: withdraw_state)
  moreover have "v \<le> balance a \<and> \<bar>v\<bar> < 10 ^ int_max_str_digits
      \<and> \<bar>balance a - v\<bar> < 10 ^ int_max_str_digits \<longrightarrow>
      fst (withdraw a v) =
        Inr (''You have withdrawn '' @ decimal v @ '' USD. Remaining balance: ''
               @ decimal (balance a - v) @ '' USD'')"
    by (simp add: withdraw_def Let_def str_int_eq)
  moreover have "v \<le> balance a \<and> (10 ^ int_max_str_digits \<le> \<bar>v\<bar>
      \<or> 10 ^ int_max_str_digits \<le> \<bar>balance a - v\<bar>) \<longrightarrow>
      fst (withdraw a v) = Inl str_digits_error"
    by (auto simp add: withdraw_def Let_def str_int_eq)
  ultimately show ?thesis by blast
qed

theorem withdraw_spec_witness:
  "withdraw \<lparr>owner = 0, balance = 100, account_number = 1, account_initiation = False\<rparr> 150
     = (Inl (ValueError ''Insufficient balance.''),
        \<lparr>owner = 0, balance = 100, account_number = 1, account_initiation = False\<rparr>) \<and>
   withdraw \<lparr>owner = 0, balance = 100, account_number = 1, account_initiation = False\<rparr> 50
     = (Inr ''You have withdrawn 50 USD. Remaining balance: 50 USD'',
        \<lparr>owner = 0, balance = 50, account_number = 1, account_initiation = False\<rparr>) \<and>
   withdraw \<lparr>owner = 0, balance = 0, account_number = 1, account_initiation = True\<rparr> (- 5)
     = (Inr ''You have withdrawn -5 USD. Remaining balance: 5 USD'',
        \<lparr>owner = 0, balance = 5, account_number = 1, account_initiation = True\<rparr>) \<and>
   withdraw \<lparr>owner = 0, balance = 0, account_number = 1, account_initiation = True\<rparr>
       (- (10 ^ int_max_str_digits))
     = (Inl str_digits_error,
        \<lparr>owner = 0, balance = 10 ^ int_max_str_digits, account_number = 1,
         account_initiation = True\<rparr>)"
proof -
  let ?a = "\<lparr>owner = 0, balance = 100, account_number = 1, account_initiation = False\<rparr>"
  let ?b = "\<lparr>owner = 0, balance = 0, account_number = 1, account_initiation = True\<rparr>"
  have f: "\<bar>50::int\<bar> < 10 ^ int_max_str_digits" "\<bar>- 5::int\<bar> < 10 ^ int_max_str_digits"
    "\<bar>5::int\<bar> < 10 ^ int_max_str_digits"
    using small_fits [of 50] small_fits [of "- 5"] small_fits [of 5] by simp_all
  have c1: "withdraw ?a 150 = (Inl (ValueError ''Insufficient balance.''), ?a)"
    using withdraw_spec [of ?a 150] by simp
  have c2: "withdraw ?a 50 = (Inr ''You have withdrawn 50 USD. Remaining balance: 50 USD'',
      \<lparr>owner = 0, balance = 50, account_number = 1, account_initiation = False\<rparr>)"
    using withdraw_spec [of ?a 50] f by (simp add: prod_eq_iff decimal_values)
  have c3: "withdraw ?b (- 5) = (Inr ''You have withdrawn -5 USD. Remaining balance: 5 USD'',
      \<lparr>owner = 0, balance = 5, account_number = 1, account_initiation = True\<rparr>)"
    using withdraw_spec [of ?b "- 5"] f by (simp add: prod_eq_iff decimal_values)
  have c4: "withdraw ?b (- (10 ^ int_max_str_digits)) = (Inl str_digits_error,
      \<lparr>owner = 0, balance = 10 ^ int_max_str_digits, account_number = 1,
       account_initiation = True\<rparr>)"
    using withdraw_spec [of ?b "- (10 ^ int_max_str_digits)"] by (simp add: prod_eq_iff)
  from c1 c2 c3 c4 show ?thesis by blast
qed

text \<open>
  C9, as stated, at a concrete input: on the account reached by \<open>top_up(100)\<close> from
  construction, \<open>withdraw(- (10 ^ 4300))\<close> raises (the amount has 4301 digits, so the
  f-string of the \<open>return\<close> statement raises \<open>ValueError\<close>).
\<close>

theorem withdraw_negative_can_raise:
  "- (10 ^ 4300) < (0::int) \<and>
   fst (withdraw (run_operations (fst (BankAccount_init world0 0)) [TopUp 100]) (- (10 ^ 4300)))
     = Inl str_digits_error"
  unfolding int_max_str_digits_def [symmetric]
  by (simp add: run_operations_def fresh_account_world0 top_up_state withdraw_def Let_def
      str_int_eq limit_power_neg)

text \<open>
  C9, amended: on every account reachable from construction, \<open>withdraw(v)\<close> with
  \<open>v < 0\<close> never raises the insufficient-funds error, increases the balance by \<open>- v\<close>
  (so strictly), and leaves the initiation flag as it was. It returns its message when
  the new balance has at most 4300 decimal digits; otherwise the conversion raises
  \<open>ValueError\<close>, after the balance was increased.
\<close>

theorem withdraw_negative_deposits:
  assumes "v < 0" and "s = run_operations (fst (BankAccount_init w own)) xs"
  shows "fst (withdraw s v) \<noteq> Inl (ValueError ''Insufficient balance.'') \<and>
         balance (snd (withdraw s v)) = balance s + (- v) \<and>
         balance s < balance (snd (withdraw s v)) \<and>
         account_initiation (snd (withdraw s v)) = account_initiation s \<and>
         (balance s - v < 10 ^ int_max_str_digits \<longrightarrow>
            fst (withdraw s v) =
              Inr (''You have withdrawn '' @ decimal v @ '' USD. Remaining balance: ''
                     @ decimal (balance s - v) @ '' USD'')) \<and>
         (10 ^ int_max_str_digits \<le> balance s - v \<longrightarrow>
            fst (withdraw s v) = Inl str_digits_error)"
proof -
  have "0 \<le> balance (fst (BankAccount_init w own))"
    by (simp add: BankAccount_init_fresh)
  then have nonneg: "0 \<le> balance s"
    unfolding assms(2) by (rule run_operations_balance_nonneg)
  with assms(1) have ok: "\<not> balance s < v" by simp
  from nonneg assms(1) have av: "\<bar>v\<bar> = - v" and ab: "\<bar>balance s - v\<bar> = balance s - v"
    and le: "- v \<le> balance s - v"
    by simp_all
  have small: "balance s - v < 10 ^ int_max_str_digits \<Longrightarrow> - v < 10 ^ int_max_str_digits"
    using le by simp
  from ok have "fst (withdraw s v) \<noteq> Inl (ValueError ''Insufficient balance.'')"
    by (simp add: withdraw_def Let_def str_int_eq str_digits_error_distinct)
  moreover from ok assms(1) have "balance (snd (withdraw s v)) = balance s + (- v)"
    "balance s < balance (snd (withdraw s v))"
    "account_initiation (snd (withdraw s v)) = account_initiation s"
    by (simp_all add: withdraw_state)
  moreover from ok have "balance s - v < 10 ^ int_max_str_digits \<longrightarrow>
            fst (withdraw s v) =
              Inr (''You have withdrawn '' @ decimal v @ '' USD. Remaining balance: ''
                     @ decimal (balance s - v) @ '' USD'')"
    using small by (simp add: withdraw_def Let_def str_int_eq av ab)
  moreover from ok have "10 ^ int_max_str_digits \<le> balance s - v \<longrightarrow>
            fst (withdraw s v) = Inl str_digits_error"
    by (simp add: withdraw_def Let_def str_int_eq av ab)
  ultimately show ?thesis by blast
qed

theorem withdraw_negative_deposits_witness:
  "(- 5::int) < 0 \<and>
   fst (withdraw (run_operations (fst (BankAccount_init world0 0)) [TopUp 100, Withdraw 50]) (- 5))
     = Inr ''You have withdrawn -5 USD. Remaining balance: 55 USD'' \<and>
   balance (snd (withdraw
       (run_operations (fst (BankAccount_init world0 0)) [TopUp 100, Withdraw 50]) (- 5))) = 55 \<and>
   - (10 ^ int_max_str_digits) < (0::int) \<and>
   fst (withdraw (run_operations (fst (BankAccount_init world0 0)) [TopUp 100, Withdraw 50])
          (- (10 ^ int_max_str_digits)))
     = Inl str_digits_error"
proof -
  let ?s = "run_operations (fst (BankAccount_init world0 0)) [TopUp 100, Withdraw 50]"
  have neg: "(- 5::int) < 0" by simp
  have neg': "- (10 ^ int_max_str_digits) < (0::int)" by simp
  have b: "balance ?s = 50"
    by (simp add: run_operations_def fresh_account_world0 top_up_state withdraw_state)
  have f: "(55::int) < 10 ^ int_max_str_digits"
    using small_fits [of 55] by simp
  have c1: "fst (withdraw ?s (- 5)) = Inr ''You have withdrawn -5 USD. Remaining balance: 55 USD''"
    "balance (snd (withdraw ?s (- 5))) = 55"
    using withdraw_negative_deposits [OF neg refl, of world0 0 "[TopUp 100, Withdraw 50]"] f
    by (simp_all add: b decimal_values)
  have c2: "fst (withdraw ?s (- (10 ^ int_max_str_digits))) = Inl str_digits_error"
    using withdraw_negative_deposits [OF neg' refl, of world0 0 "[TopUp 100, Withdraw 50]"]
    by (simp add: b)
  from neg neg' c1 c2 show ?thesis by blast
qed

subsection \<open>Top-ups\<close>

text \<open>
  C4, as stated, at a concrete input: on a new account \<open>top_up(10 ^ 4300)\<close>, a positive
  amount, returns no message. The balance and the flag are updated and then the f-string
  of the \<open>return\<close> statement raises \<open>ValueError\<close>, because the amount has 4301 digits.
\<close>

theorem top_up_huge_amount_raises:
  "(0::int) < 10 ^ 4300 \<and>
   top_up (fst (BankAccount_init world0 0)) (10 ^ 4300)
     = (Inl str_digits_error,
        \<lparr>owner = 0, balance = 10 ^ 4300, account_number = 1, account_initiation = False\<rparr>)"
  unfolding int_max_str_digits_def [symmetric]
  by (simp add: fresh_account_world0 top_up_def Let_def str_int_eq limit_power_not_le0)

text \<open>
  C4, amended: for every account, \<open>top_up(v)\<close> with \<open>v \<le> 0\<close> raises \<open>ValueError\<close>
  (message "Top ups should be positive amount.") and leaves the account unchanged; with
  \<open>v > 0\<close> it increases the balance by exactly \<open>v\<close> and sets the initiation flag to
  false; when \<open>v\<close> and the resulting balance both have at most 4300 decimal digits it
  returns the message with the deposited amount and the resulting balance; when one of
  them has more, the conversion raises \<open>ValueError\<close> after the account was updated.
\<close>

theorem top_up_spec:
  "(v \<le> 0 \<longrightarrow> top_up a v = (Inl (ValueError ''Top ups should be positive amount.''), a)) \<and>
   (0 < v \<longrightarrow>
      snd (top_up a v) = a\<lparr>balance := balance a + v, account_initiation := False\<rparr>) \<and>
   (0 < v \<and> v < 10 ^ int_max_str_digits
      \<and> \<bar>balance a + v\<bar> < 10 ^ int_max_str_digits \<longrightarrow>
      fst (top_up a v) =
        Inr (''You have topped up '' @ decimal v @ '' USD. Current balance: ''
               @ decimal (balance a + v) @ '' USD'')) \<and>
   (0 < v \<and> (10 ^ int_max_str_digits \<le> v
      \<or> 10 ^ int_max_str_digits \<le> \<bar>balance a + v\<bar>) \<longrightarrow>
      fst (top_up a v) = Inl str_digits_error)"
proof -
  have "v \<le> 0 \<longrightarrow> top_up a v = (Inl (ValueError ''Top ups should be positive amount.''), a)"
    by (simp add: top_up_def)
  moreover have "0 < v \<longrightarrow>
      snd (top_up a v) = a\<lparr>balance := balance a + v, account_initiation := False\<rparr>"
    by (simp add: top_up_state)
  moreover have "0 < v \<and> v < 10 ^ int_max_str_digits
      \<and> \<bar>balance a + v\<bar> < 10 ^ int_max_str_digits \<longrightarrow>
      fst (top_up a v) =
        Inr (''You have topped up '' @ decimal v @ '' USD. Current balance: ''
               @ decimal (balance a + v) @ '' USD'')"
    by (simp add: top_up_def Let_def str_int_eq)
  moreover have "0 < v \<and> (10 ^ int_max_str_digits \<le> v
      \<or> 10 ^ int_max_str_digits \<le> \<bar>balance a + v\<bar>) \<longrightarrow>
      fst (top_up a v) = Inl str_digits_error"
    by (auto simp add: top_up_def Let_def str_int_eq)
  ultimately show ?thesis by blast
qed

theorem top_up_spec_witness:
  "(0::int) < 100 \<and> (0::int) \<le> 0 \<and>
   top_up (fst (BankAccount_init world0 0)) 100 =
     (Inr ''You have topped up 100 USD. Current balance: 100 USD'',
      \<lparr>owner = 0, balance = 100, account_number = 1, account_initiation = False\<rparr>) \<and>
   top_up (fst (BankAccount_init world0 0)) 0 =
     (Inl (ValueError ''Top ups should be positive amount.''),
      \<lparr>owner = 0, balance = 0, account_number = 1, account_initiation = True\<rparr>) \<and>
   top_up (fst (BankAccount_init world0 0)) (10 ^ int_max_str_digits) =
     (Inl str_digits_error,
      \<lparr>owner = 0, balance = 10 ^ int_max_str_digits, account_number = 1,
       account_initiation = False\<rparr>)"
proof -
  let ?a = "fst (BankAccount_init world0 0)"
  have f: "(100::int) < 10 ^ int_max_str_digits"
    using small_fits [of 100] by simp
  have c1: "top_up ?a 100 =
     (Inr ''You have topped up 100 USD. Current balance: 100 USD'',
      \<lparr>owner = 0, balance = 100, account_number = 1, account_initiation = False\<rparr>)"
    using top_up_spec [of 100 ?a] f
    by (simp add: prod_eq_iff fresh_account_world0 decimal_values)
  have c2: "top_up ?a 0 =
     (Inl (ValueError ''Top ups should be positive amount.''),
      \<lparr>owner = 0, balance = 0, account_number = 1, account_initiation = True\<rparr>)"
    using top_up_spec [of 0 ?a] by (simp add: fresh_account_world0)
  have c3: "top_up ?a (10 ^ int_max_str_digits) =
     (Inl str_digits_error,
      \<lparr>owner = 0, balance = 10 ^ int_max_str_digits, account_number = 1,
       account_initiation = False\<rparr>)"
    using top_up_spec [of "10 ^ int_max_str_digits" ?a]
    by (simp add: prod_eq_iff fresh_account_world0)
  from c1 c2 c3 show ?thesis by simp
qed

subsection \<open>The balance is never negative\<close>

text \<open>
  C6: for every account and every sequence of \<open>top_up\<close>, \<open>withdraw\<close> and setter calls
  made on it from construction (balance 0), the balance is not negative. Every state
  reached on the way is the state after a prefix of the sequence, so this covers every
  reachable state.
\<close>

theorem balance_never_negative:
  "0 \<le> balance (run_operations (fst (BankAccount_init w own)) xs)"
proof -
  have "0 \<le> balance (fst (BankAccount_init w own))"
    by (simp add: BankAccount_init_fresh)
  then show ?thesis
    by (rule run_operations_balance_nonneg)
qed

theorem balance_never_negative_witness:
  "0 \<le> balance (run_operations (fst (BankAccount_init world0 0))
            [Withdraw 10, TopUp 100, Withdraw 150, SetBalance (- 7), Withdraw 100, Withdraw (- 3)])"
  using balance_never_negative [of world0 0
      "[Withdraw 10, TopUp 100, Withdraw 150, SetBalance (- 7), Withdraw 100, Withdraw (- 3)]"]
  by simp

subsection \<open>Errors and the account state\<close>

text \<open>
  C10, as stated, at a concrete input: on the account with balance 222 (a new account
  after the assignment of 222), \<open>top_up(10 ^ 4300)\<close> raises an error and the balance is
  no longer 222: the f-string raises after the balance was updated.
\<close>

theorem top_up_error_after_update:
  "fst (top_up (snd (balance_setter (fst (BankAccount_init world0 0)) 222)) (10 ^ 4300))
     = Inl str_digits_error \<and>
   balance (snd (balance_setter (fst (BankAccount_init world0 0)) 222)) = 222 \<and>
   balance (snd (top_up (snd (balance_setter (fst (BankAccount_init world0 0)) 222)) (10 ^ 4300)))
     = 222 + 10 ^ 4300 \<and>
   snd (top_up (snd (balance_setter (fst (BankAccount_init world0 0)) 222)) (10 ^ 4300))
     \<noteq> snd (balance_setter (fst (BankAccount_init world0 0)) 222)"
  unfolding int_max_str_digits_def [symmetric]
  by (simp add: fresh_account_world0 balance_setter_state top_up_def Let_def str_int_eq
      limit_power_not_le0)

text \<open>
  C10, amended: whenever \<open>top_up\<close> or \<open>withdraw\<close> raises an error other than the
  digit-limit error of integer conversion, and whenever the balance setter raises at
  all, the account object after the call equals the one before it: balance, initiation
  flag, owner reference and account number are unchanged. When \<open>top_up\<close> or \<open>withdraw\<close>
  raises the digit-limit error, the account has already been updated as by a successful
  call.
\<close>

theorem error_leaves_account_unchanged:
  "(fst (top_up a v) = Inl e \<and> e \<noteq> str_digits_error \<longrightarrow> snd (top_up a v) = a) \<and>
   (fst (withdraw a v) = Inl e \<and> e \<noteq> str_digits_error \<longrightarrow> snd (withdraw a v) = a) \<and>
   (fst (balance_setter a v) = Inl e \<longrightarrow> snd (balance_setter a v) = a) \<and>
   (fst (top_up a v) = Inl str_digits_error \<longrightarrow>
      snd (top_up a v) = a\<lparr>balance := balance a + v, account_initiation := False\<rparr>) \<and>
   (fst (withdraw a v) = Inl str_digits_error \<longrightarrow>
      snd (withdraw a v) = a\<lparr>balance := balance a - v\<rparr>)"
proof -
  have "fst (top_up a v) = Inl e \<and> e \<noteq> str_digits_error \<longrightarrow> snd (top_up a v) = a"
    by (auto simp add: top_up_def Let_def str_int_eq split: if_splits)
  moreover have "fst (withdraw a v) = Inl e \<and> e \<noteq> str_digits_error \<longrightarrow> snd (withdraw a v) = a"
    by (auto simp add: withdraw_def Let_def str_int_eq split: if_splits)
  moreover have "fst (balance_setter a v) = Inl e \<longrightarrow> snd (balance_setter a v) = a"
    by (simp add: balance_setter_def Let_def)
  moreover have "fst (top_up a v) = Inl str_digits_error \<longrightarrow>
      snd (top_up a v) = a\<lparr>balance := balance a + v, account_initiation := False\<rparr>"
    by (cases "v \<le> 0") (simp_all add: top_up_state, simp add: top_up_def str_digits_error_distinct [symmetric])
  moreover have "fst (withdraw a v) = Inl str_digits_error \<longrightarrow>
      snd (withdraw a v) = a\<lparr>balance := balance a - v\<rparr>"
    by (cases "balance a < v") (simp_all add: withdraw_state, simp add: withdraw_def str_digits_error_distinct [symmetric])
  ultimately show ?thesis by blast
qed

theorem error_leaves_account_unchanged_witness:
  "fst (top_up \<lparr>owner = 3, balance = 40, account_number = 2, account_initiation = True\<rparr> (- 1))
     = Inl (ValueError ''Top ups should be positive amount.'') \<and>
   snd (top_up \<lparr>owner = 3, balance = 40, account_number = 2, account_initiation = True\<rparr> (- 1))
     = \<lparr>owner = 3, balance = 40, account_number = 2, account_initiation = True\<rparr> \<and>
   fst (withdraw \<lparr>owner = 3, balance = 40, account_number = 2, account_initiation = True\<rparr> 41)
     = Inl (ValueError ''Insufficient balance.'') \<and>
   snd (withdraw \<lparr>owner = 3, balance = 40, account_number = 2, account_initiation = True\<rparr> 41)
     = \<lparr>owner = 3, balance = 40, account_number = 2, account_initiation = True\<rparr> \<and>
   fst (balance_setter \<lparr>owner = 3, balance = 40, account_number = 2, account_initiation = True\<rparr> 0)
     = Inl (ValueError ''Balance should be above 0.'') \<and>
   snd (balance_setter \<lparr>owner = 3, balance = 40, account_number = 2, account_initiation = True\<rparr> 0)
     = \<lparr>owner = 3, balance = 40, account_number = 2, account_initiation = True\<rparr> \<and>
   fst (top_up \<lparr>owner = 3, balance = 40, account_number = 2, account_initiation = True\<rparr>
          (10 ^ int_max_str_digits))
     = Inl str_digits_error \<and>
   snd (top_up \<lparr>owner = 3, balance = 40, account_number = 2, account_initiation = True\<rparr>
          (10 ^ int_max_str_digits))
     = \<lparr>owner = 3, balance = 40 + 10 ^ int_max_str_digits, account_number = 2,
        account_initiation = False\<rparr> \<and>
   fst (withdraw \<lparr>owner = 3, balance = 40, account_number = 2, account_initiation = True\<rparr>
          (- (10 ^ int_max_str_digits)))
     = Inl str_digits_error \<and>
   snd (withdraw \<lparr>owner = 3, balance = 40, account_number = 2, account_initiation = True\<rparr>
          (- (10 ^ int_max_str_digits)))
     = \<lparr>owner = 3, balance = 40 + 10 ^ int_max_str_digits, account_number = 2,
        account_initiation = True\<rparr>"
proof -
  let ?a = "\<lparr>owner = 3, balance = 40, account_number = 2, account_initiation = True\<rparr>"
  have t: "fst (top_up ?a (- 1)) = Inl (ValueError ''Top ups should be positive amount.'')"
    by (simp add: top_up_def)
  have w: "fst (withdraw ?a 41) = Inl (ValueError ''Insufficient balance.'')"
    by (simp add: withdraw_def)
  have b: "fst (balance_setter ?a 0) = Inl (ValueError ''Balance should be above 0.'')"
    by (simp add: balance_setter_def)
  have t': "fst (top_up ?a (10 ^ int_max_str_digits)) = Inl str_digits_error"
    by (simp add: top_up_def Let_def str_int_eq limit_power_not_le0)
  have w': "fst (withdraw ?a (- (10 ^ int_max_str_digits))) = Inl str_digits_error"
    by (simp add: withdraw_def Let_def str_int_eq limit_power_neg)
  have d: "ValueError ''Top ups should be positive amount.'' \<noteq> str_digits_error"
    "ValueError ''Insufficient balance.'' \<noteq> str_digits_error"
    by (simp_all add: str_digits_error_def)
  have c1: "snd (top_up ?a (- 1)) = ?a"
    using error_leaves_account_unchanged
      [of ?a "- 1" "ValueError ''Top ups should be positive amount.''"] t d
    by simp
  have c2: "snd (withdraw ?a 41) = ?a"
    using error_leaves_account_unchanged [of ?a 41 "ValueError ''Insufficient balance.''"] w d
    by simp
  have c3: "snd (balance_setter ?a 0) = ?a"
    using error_leaves_account_unchanged [of ?a 0 "ValueError ''Balance should be above 0.''"] b
    by simp
  have c4: "snd (top_up ?a (10 ^ int_max_str_digits))
      = \<lparr>owner = 3, balance = 40 + 10 ^ int_max_str_digits, account_number = 2,
         account_initiation = False\<rparr>"
    using error_leaves_account_unchanged [of ?a "10 ^ int_max_str_digits"] t'
    by simp
  have c5: "snd (withdraw ?a (- (10 ^ int_max_str_digits)))
      = \<lparr>owner = 3, balance = 40 + 10 ^ int_max_str_digits, account_number = 2,
         account_initiation = True\<rparr>"
    using error_leaves_account_unchanged [of ?a "- (10 ^ int_max_str_digits)"] w'
    by simp
  from t w b t' w' c1 c2 c3 c4 c5 show ?thesis by blast
qed

subsection \<open>Customer ids and account numbers\<close>

lemma Customer_init_counters:
  "customer_counter (snd (Customer_init w nm em)) = customer_counter w + 1"
  "account_counter (snd (Customer_init w nm em)) = account_counter w"
  by (simp_all add: Customer_init_def Let_def)

lemma Customer_init_deref:
  "deref (snd (Customer_init w nm em)) (fst (Customer_init w nm em))
     = Some \<lparr>name = nm, email = em, customer_id = customer_counter w + 1\<rparr>"
  by (simp add: Customer_init_def deref_def Let_def)

lemma BankAccount_init_counters:
  "customer_counter (snd (BankAccount_init w own)) = customer_counter w"
  "account_counter (snd (BankAccount_init w own)) = account_counter w + 1"
  by (simp_all add: BankAccount_init_def Let_def)

lemma set_email_counters:
  "customer_counter (set_email w r em) = customer_counter w"
  "account_counter (set_email w r em) = account_counter w"
  by (simp_all add: set_email_def split: option.splits)

lemma upto_from_next:
  "[c + 1..c + int (Suc n)] = (c + 1) # [c + 1 + 1..c + 1 + int n]"
  by (subst upto_rec1) (simp_all add: add.assoc)

lemma run_events_from:
  "run_events w es =
     ([customer_counter w + 1..customer_counter w + int (customers_created es)],
      [account_counter w + 1..account_counter w + int (accounts_created es)])"
proof (induction w es rule: run_events.induct)
  case (1 w)
  show ?case by simp
next
  case (2 w nm em es)
  have "run_events (snd (Customer_init w nm em)) es =
     ([customer_counter w + 1 + 1..customer_counter w + 1 + int (customers_created es)],
      [account_counter w + 1..account_counter w + int (accounts_created es)])"
    using "2.IH" [OF refl prod.collapse] by (simp add: Customer_init_counters)
  then show ?case
    using Customer_init_deref [of w nm em]
    by (simp add: case_prod_beta upto_from_next del: of_nat_Suc)
next
  case (3 w own es)
  have "run_events (snd (BankAccount_init w own)) es =
     ([customer_counter w + 1..customer_counter w + int (customers_created es)],
      [account_counter w + 1 + 1..account_counter w + 1 + int (accounts_created es)])"
    using "3.IH" [OF refl prod.collapse] by (simp add: BankAccount_init_counters)
  then show ?case
    by (simp add: case_prod_beta upto_from_next BankAccount_init_fresh del: of_nat_Suc)
next
  case (4 w r em es)
  then show ?case by (simp add: set_email_counters)
qed

text \<open>
  C7: for every sequence of constructions in one process (interleaved in any way, with
  email changes in between), the customer ids assigned are exactly 1, 2, ..., one per
  customer created, in creation order, and the account numbers assigned are exactly
  1, 2, ..., one per account created: each counter advances only with its own class.
\<close>

theorem ids_count_from_one:
  "run_events world0 es =
     ([1..int (customers_created es)], [1..int (accounts_created es)])"
  by (subst run_events_from) (simp add: world0_def)

theorem ids_count_from_one_witness:
  "run_events world0
     [NewCustomer ''Davide Blane'' ''dave@mail.com'', NewCustomer ''Mark'' ''mark@mail.ua'',
      NewAccount 0, SetEmail 0 ''d@mail.com'', NewAccount 1, NewCustomer ''Ann'' ''ann@mail.com'']
     = ([1, 2, 3], [1, 2])"
  using ids_count_from_one [of
     "[NewCustomer ''Davide Blane'' ''dave@mail.com'', NewCustomer ''Mark'' ''mark@mail.ua'',
       NewAccount 0, SetEmail 0 ''d@mail.com'', NewAccount 1, NewCustomer ''Ann'' ''ann@mail.com'']"]
  by (simp add: upto_rec1)

subsection \<open>Owner information\<close>

text \<open>
  C8: for every account whose owner reference points to a customer object,
  \<open>get_account_owner_info\<close> returns exactly what \<open>get_info\<close> returns on that object at
  the time of the call; after the owner's email has been reassigned through the email
  setter, it returns the text with the new email.
\<close>

theorem owner_info_follows_owner:
  assumes "deref w (owner a) = Some c"
  shows "get_account_owner_info w a = Some (get_info c) \<and>
         deref (set_email w (owner a) em) (owner a) = Some (email_setter c em) \<and>
         get_account_owner_info (set_email w (owner a) em) a
           = Some (get_info (email_setter c em)) \<and>
         get_info (email_setter c em)
           = (case str_int (customer_id c) of
                Inl e \<Rightarrow> Inl e
              | Inr sid \<Rightarrow>
                  Inr (''Customer: '' @ name c @ '' '' @ [CHR 0x0A] @ ''Email: '' @ em @ '' ''
                         @ [CHR 0x0A] @ ''Customer ID: '' @ sid))"
proof -
  from assms have r: "owner a < length (customers w)"
    by (simp add: deref_def split: if_splits)
  have d: "deref (set_email w (owner a) em) (owner a) = Some (email_setter c em)"
    using assms r by (simp add: set_email_def deref_def)
  show ?thesis
    using assms d
    by (simp add: get_account_owner_info_def get_info_def email_setter_def split: sum.splits)
qed

theorem owner_info_follows_owner_witness:
  "deref (snd (Customer_init world0 ''Mark'' ''mark@mail.ua''))
         (owner (fst (BankAccount_init (snd (Customer_init world0 ''Mark'' ''mark@mail.ua'')) 0)))
     = Some \<lparr>name = ''Mark'', email = ''mark@mail.ua'', customer_id = 1\<rparr> \<and>
   get_account_owner_info
       (set_email (snd (Customer_init world0 ''Mark'' ''mark@mail.ua'')) 0 ''new@mail.ua'')
       (fst (BankAccount_init (snd (Customer_init world0 ''Mark'' ''mark@mail.ua'')) 0))
     = Some (Inr (''Customer: Mark '' @ [CHR 0x0A] @ ''Email: new@mail.ua '' @ [CHR 0x0A]
                    @ ''Customer ID: 1''))"
proof -
  let ?w = "snd (Customer_init world0 ''Mark'' ''mark@mail.ua'')"
  let ?a = "fst (BankAccount_init ?w 0)"
  have o: "owner ?a = 0" by (simp add: BankAccount_init_fresh)
  have d: "deref ?w (owner ?a) = Some \<lparr>name = ''Mark'', email = ''mark@mail.ua'', customer_id = 1\<rparr>"
    unfolding o by (simp add: Customer_init_def deref_def world0_def Let_def)
  show ?thesis
    using d owner_info_follows_owner [OF d, of "''new@mail.ua''"]
    by (simp add: o str_int_values)
qed

end
